theory Spec2Isabelle
  imports Complex_Main
begin

section \<open>Earth Engine values, numbers and features\<close>

text \<open>
  The script \<^verbatim>\<open>GEE_TopographicVariableExtractionScript.js\<close> is a chain of
  whole-collection transformations written against the Earth Engine client library.
  The library itself is not part of the repository, so the handful of primitives the
  script calls are modelled here, with the behaviour of the platform where it is known
  and from the specification where the text below says so:

  \<^item> a server-side value is a number, a string or \<^verbatim>\<open>null\<close>; numbers are modelled
    as exact reals (the platform computes in double precision, so every equation
    below holds up to rounding);
  \<^item> \<^verbatim>\<open>feature.get(k)\<close> yields \<^verbatim>\<open>null\<close> for a property that is not set;
  \<^item> an arithmetic method of \<^verbatim>\<open>ee.Number\<close> applied to anything that is not a number
    raises an error (\<^verbatim>\<open>Parameter 'left' is required\<close>), and an error raised inside
    a mapped function fails the whole collection;
  \<^item> computed objects are deferred, so an error travels along the expression until
    the value is used: a computed value is \<open>ee_error + ee_value\<close>.
\<close>

datatype ee_value = Null | Num real | Str string

datatype ee_error = InvalidArgument | TooManyPixels

type_synonym computed = "ee_error + ee_value"

type_synonym coord = "real \<times> real"

text \<open>
  A feature of the thaw database: a point geometry (longitude, latitude), absent when the
  record has no coordinate, and a dictionary of named properties.
\<close>

record feature =
  geometry :: "coord option"
  properties :: "string \<rightharpoonup> ee_value"

definition Feature_get :: "feature \<Rightarrow> string \<Rightarrow> ee_value" where
  "Feature_get f k = (case properties f k of None \<Rightarrow> Null | Some v \<Rightarrow> v)"

definition Feature_set :: "feature \<Rightarrow> string \<Rightarrow> computed \<Rightarrow> ee_error + feature" where
  "Feature_set f k c =
     (case c of
        Inl e \<Rightarrow> Inl e
      | Inr v \<Rightarrow> Inr (f\<lparr>properties := (properties f)(k \<mapsto> v)\<rparr>))"

text \<open>\<^verbatim>\<open>ee.Number(x)\<close> is a cast: it wraps the value and checks nothing.\<close>

definition ee_Number :: "ee_value \<Rightarrow> computed" where
  "ee_Number v = Inr v"

text \<open>A client-side JavaScript number passed to a server-side method.\<close>

definition js_number :: "real \<Rightarrow> computed" where
  "js_number r = Inr (Num r)"

fun Number_binary :: "(real \<Rightarrow> real \<Rightarrow> real) \<Rightarrow> computed \<Rightarrow> computed \<Rightarrow> computed" where
  "Number_binary f (Inr (Num x)) (Inr (Num y)) = Inr (Num (f x y))"
| "Number_binary f (Inl e) _ = Inl e"
| "Number_binary f _ (Inl e) = Inl e"
| "Number_binary f _ _ = Inl InvalidArgument"

fun Number_unary :: "(real \<Rightarrow> real) \<Rightarrow> computed \<Rightarrow> computed" where
  "Number_unary f (Inr (Num x)) = Inr (Num (f x))"
| "Number_unary f (Inl e) = Inl e"
| "Number_unary f _ = Inl InvalidArgument"

definition Number_add :: "computed \<Rightarrow> computed \<Rightarrow> computed" where
  "Number_add = Number_binary (+)"

definition Number_subtract :: "computed \<Rightarrow> computed \<Rightarrow> computed" where
  "Number_subtract = Number_binary (-)"

definition Number_multiply :: "computed \<Rightarrow> computed \<Rightarrow> computed" where
  "Number_multiply = Number_binary (*)"

text \<open>The script only ever divides by the literal 180.\<close>

definition Number_divide :: "computed \<Rightarrow> computed \<Rightarrow> computed" where
  "Number_divide = Number_binary (/)"

definition Number_abs :: "computed \<Rightarrow> computed" where
  "Number_abs = Number_unary abs"

definition Number_cos :: "computed \<Rightarrow> computed" where
  "Number_cos = Number_unary cos"

definition Number_sin :: "computed \<Rightarrow> computed" where
  "Number_sin = Number_unary sin"

text \<open>
  \<^verbatim>\<open>feature.geometry().coordinates().get(1)\<close>: the second coordinate of a point is its
  latitude; a feature without geometry has no coordinates to read.
\<close>

definition coordinates_get_1 :: "coord option \<Rightarrow> computed" where
  "coordinates_get_1 g = (case g of None \<Rightarrow> Inl InvalidArgument | Some (lon, lat) \<Rightarrow> Inr (Num lat))"

section \<open>Solar radiation index\<close>

text \<open>Lines 85 and 86: the two constants, computed once, in radians.\<close>

definition solarDeclination :: real where
  "solarDeclination = 23.44 * pi / 180"

definition solarAzimuth :: real where
  "solarAzimuth = 136.52 * pi / 180"

text \<open>Lines 89 to 113: the function mapped over \<^verbatim>\<open>withRelativeElev\<close>.\<close>

definition withSRI_feature :: "feature \<Rightarrow> ee_error + feature" where
  "withSRI_feature feature =
     (let slopeRad = Number_divide
                       (Number_multiply (ee_Number (Feature_get feature ''slope'')) (js_number pi))
                       (js_number 180);
          aspectRad = Number_divide
                        (Number_multiply (ee_Number (Feature_get feature ''aspect'')) (js_number pi))
                        (js_number 180);
          lat = coordinates_get_1 (geometry feature);
          latRad = Number_divide (Number_multiply lat (js_number pi)) (js_number 180);
          solarZenith = Number_abs (Number_subtract latRad (js_number solarDeclination));
          sri = Number_add
                  (Number_multiply (Number_cos solarZenith) (Number_cos slopeRad))
                  (Number_multiply
                     (Number_multiply (Number_sin solarZenith) (Number_sin slopeRad))
                     (Number_cos (Number_subtract aspectRad (js_number solarAzimuth))))
      in Feature_set feature ''solar_radiation_index'' sri)"

text \<open>
  The index as the specification words it (section 4.5): convert the three degree
  inputs to radians, take the zenith as the distance of the latitude from the
  declination, and combine.
\<close>

definition radians :: "real \<Rightarrow> real" where
  "radians deg = deg * pi / 180"

definition sri_spec :: "real \<Rightarrow> real \<Rightarrow> real \<Rightarrow> real" where
  "sri_spec slopeDeg aspectDeg latitudeDeg =
     (let slopeRad = radians slopeDeg;
          aspectRad = radians aspectDeg;
          latRad = radians latitudeDeg;
          solarZenith = \<bar>latRad - radians 23.44\<bar>
      in cos solarZenith * cos slopeRad
         + sin solarZenith * sin slopeRad * cos (aspectRad - radians 136.52))"

section \<open>Rasters, sampling and the neighbourhood mean\<close>

text \<open>
  A raster band gives each cell of the pixel grid a value, or nothing where the cell is
  masked or lies outside the extent of the data. An image is a list of named bands.
  The script works at \<^verbatim>\<open>scale: 2\<close>, the native resolution of the mosaic, so bands
  are indexed by the cells of that one grid.
\<close>

type_synonym pixel = "int \<times> int"

type_synonym band = "pixel \<Rightarrow> real option"

type_synonym image = "(string \<times> band) list"

text \<open>
  The georeferencing of the mosaic belongs to the platform and is a parameter of the
  model: which cell holds a coordinate, where the centre of a cell lies, and which cells
  the reduction over a buffer of a given radius around a coordinate visits.
\<close>

record grid =
  pixel_of :: "coord \<Rightarrow> pixel"
  centre_of :: "pixel \<Rightarrow> coord"
  disk_pixels :: "coord \<Rightarrow> real \<Rightarrow> pixel list"

text \<open>
  The gradient method behind \<^verbatim>\<open>ee.Terrain.products\<close> is the platform's as well; the
  bands it derives from the elevation band are parameters.
\<close>

record terrain_algorithms =
  slope_of :: "band \<Rightarrow> band"
  aspect_of :: "band \<Rightarrow> band"
  hillshade_of :: "band \<Rightarrow> band"

text \<open>Line 28: the first band of the mosaic, renamed.\<close>

definition arcticDEM :: "band \<Rightarrow> image" where
  "arcticDEM dem = [(''elevation'', dem)]"

definition bandNames :: "image \<Rightarrow> string list" where
  "bandNames img = map fst img"

text \<open>
  \<^verbatim>\<open>ee.Terrain.products\<close> keeps the elevation band and adds slope, aspect and hillshade.
\<close>

definition Terrain_products :: "terrain_algorithms \<Rightarrow> band \<Rightarrow> image" where
  "Terrain_products T dem =
     arcticDEM dem @
     [(''slope'', slope_of T dem), (''aspect'', aspect_of T dem),
      (''hillshade'', hillshade_of T dem)]"

definition Image_select :: "image \<Rightarrow> string list \<Rightarrow> image" where
  "Image_select img names = concat (map (\<lambda>n. filter (\<lambda>nb. fst nb = n) img) names)"

definition terrainStack :: "terrain_algorithms \<Rightarrow> band \<Rightarrow> image" where
  "terrainStack T dem = Image_select (Terrain_products T dem) [''elevation'', ''slope'', ''aspect'']"

text \<open>
  \<^verbatim>\<open>sampleRegions\<close> turns each pixel that a feature of the collection meets into an
  output feature carrying the input properties and one property per band, its geometry
  snapped to the centre of the pixel (\<^verbatim>\<open>geometries: true\<close>). A pixel that is masked in
  any band yields no output feature.
\<close>

definition sample_pixel :: "image \<Rightarrow> pixel \<Rightarrow> (string \<times> ee_value) list option" where
  "sample_pixel img p =
     those (map (\<lambda>nb. map_option (\<lambda>v. (fst nb, Num v)) (snd nb p)) img)"

text \<open>
  Modelled from the spec: what \<^verbatim>\<open>sampleRegions\<close> makes of a feature without geometry
  is not in the repository. Section 7 has a point with a malformed coordinate excluded,
  a local condition that does not abort the run: such a feature meets no pixel and
  yields no output feature.
\<close>

definition sample_feature :: "grid \<Rightarrow> image \<Rightarrow> feature \<Rightarrow> feature list" where
  "sample_feature G img f =
     (case geometry f of
        None \<Rightarrow> []
      | Some c \<Rightarrow>
          (case sample_pixel img (pixel_of G c) of
             None \<Rightarrow> []
           | Some vs \<Rightarrow>
               [\<lparr>geometry = Some (centre_of G (pixel_of G c)),
                 properties = properties f ++ map_of vs\<rparr>]))"

definition sampleRegions :: "grid \<Rightarrow> image \<Rightarrow> feature list \<Rightarrow> feature list" where
  "sampleRegions G img collection = concat (map (sample_feature G img) collection)"

text \<open>
  \<^verbatim>\<open>point.geometry().buffer(100)\<close>: the disk around the point; a region is its centre
  and radius.
\<close>

definition Geometry_buffer :: "coord option \<Rightarrow> real \<Rightarrow> ee_error + (coord \<times> real)" where
  "Geometry_buffer g r = (case g of None \<Rightarrow> Inl InvalidArgument | Some c \<Rightarrow> Inr (c, r))"

text \<open>
  Modelled from the spec: the reducer behind \<^verbatim>\<open>ee.Reducer.mean()\<close> is the platform's.
  Section 4.1 describes it: the arithmetic mean of the cells of the disk that hold a
  value, and missing when no cell of the disk does.
\<close>

definition Reducer_mean :: "real option list \<Rightarrow> ee_value" where
  "Reducer_mean vs =
     (let valid = concat (map (\<lambda>v. case v of None \<Rightarrow> [] | Some x \<Rightarrow> [x]) vs)
      in if valid = [] then Null else Num (sum_list valid / real (length valid)))"

text \<open>
  Modelled from the spec: \<^verbatim>\<open>reduceRegion\<close> is the platform's. It visits the cells of
  the region, refuses a region of more than \<^verbatim>\<open>maxPixels\<close> cells (section 4.1: the number
  of cells visited is capped), and returns a dictionary with the reduced value of each
  band.
\<close>

definition reduceRegion ::
  "grid \<Rightarrow> image \<Rightarrow> (real option list \<Rightarrow> ee_value) \<Rightarrow> ee_error + (coord \<times> real) \<Rightarrow> nat
     \<Rightarrow> ee_error + (string \<rightharpoonup> ee_value)" where
  "reduceRegion G img reducer region maxPixels =
     (case region of
        Inl e \<Rightarrow> Inl e
      | Inr (c, r) \<Rightarrow>
          (let ps = disk_pixels G c r
           in if maxPixels < length ps then Inl TooManyPixels
              else Inr (map_of (map (\<lambda>nb. (fst nb, reducer (map (snd nb) ps))) img))))"

definition Dictionary_get :: "ee_error + (string \<rightharpoonup> ee_value) \<Rightarrow> string \<Rightarrow> computed" where
  "Dictionary_get d k =
     (case d of
        Inl e \<Rightarrow> Inl e
      | Inr m \<Rightarrow> (case m k of None \<Rightarrow> Inl InvalidArgument | Some v \<Rightarrow> Inr v))"

text \<open>Mapping a function over a collection: the first error fails the collection.\<close>

fun map_features :: "(feature \<Rightarrow> ee_error + feature) \<Rightarrow> feature list \<Rightarrow> ee_error + feature list" where
  "map_features g [] = Inr []"
| "map_features g (x # xs) =
     (case g x of
        Inl e \<Rightarrow> Inl e
      | Inr y \<Rightarrow> (case map_features g xs of Inl e \<Rightarrow> Inl e | Inr ys \<Rightarrow> Inr (y # ys)))"

definition FeatureCollection_map ::
  "(feature \<Rightarrow> ee_error + feature) \<Rightarrow> ee_error + feature list \<Rightarrow> ee_error + feature list" where
  "FeatureCollection_map g collection =
     (case collection of Inl e \<Rightarrow> Inl e | Inr xs \<Rightarrow> map_features g xs)"

section \<open>Relative elevation\<close>

text \<open>Lines 51 to 61: the function mapped over \<^verbatim>\<open>sampledPoints\<close>.\<close>

definition sampledWithMean100m_point :: "grid \<Rightarrow> image \<Rightarrow> feature \<Rightarrow> ee_error + feature" where
  "sampledWithMean100m_point G dem_image point =
     (let buffer = Geometry_buffer (geometry point) 100;
          meanDict = reduceRegion G dem_image Reducer_mean buffer 1000000;
          meanElev = Dictionary_get meanDict ''elevation''
      in Feature_set point ''mean_elev_100m'' meanElev)"

text \<open>Lines 69 to 76: the function mapped over \<^verbatim>\<open>sampledWithMean100m\<close>.\<close>

definition withRelativeElev_feature :: "feature \<Rightarrow> ee_error + feature" where
  "withRelativeElev_feature feature =
     (let elevation = ee_Number (Feature_get feature ''elevation'');
          meanElev = ee_Number (Feature_get feature ''mean_elev_100m'');
          relativeElev = Number_subtract elevation meanElev
      in Feature_set feature ''relative_elev'' relativeElev)"

section \<open>The script\<close>

text \<open>
  The collections of the script, in its order. What a run leaves behind is what it
  prints (line 29, the band names of the elevation image) and the table it exports
  (lines 120 to 124); a failed export is the error that failed it.
\<close>

definition sampledPoints :: "grid \<Rightarrow> terrain_algorithms \<Rightarrow> band \<Rightarrow> feature list \<Rightarrow> feature list" where
  "sampledPoints G T dem thawPoints = sampleRegions G (terrainStack T dem) thawPoints"

definition sampledWithMean100m ::
  "grid \<Rightarrow> terrain_algorithms \<Rightarrow> band \<Rightarrow> feature list \<Rightarrow> ee_error + feature list" where
  "sampledWithMean100m G T dem thawPoints =
     FeatureCollection_map (sampledWithMean100m_point G (arcticDEM dem))
       (Inr (sampledPoints G T dem thawPoints))"

definition withRelativeElev ::
  "grid \<Rightarrow> terrain_algorithms \<Rightarrow> band \<Rightarrow> feature list \<Rightarrow> ee_error + feature list" where
  "withRelativeElev G T dem thawPoints =
     FeatureCollection_map withRelativeElev_feature (sampledWithMean100m G T dem thawPoints)"

definition withSRI ::
  "grid \<Rightarrow> terrain_algorithms \<Rightarrow> band \<Rightarrow> feature list \<Rightarrow> ee_error + feature list" where
  "withSRI G T dem thawPoints =
     FeatureCollection_map withSRI_feature (withRelativeElev G T dem thawPoints)"

record script_output =
  console :: "string list list"
  exported :: "ee_error + feature list"

definition script :: "grid \<Rightarrow> terrain_algorithms \<Rightarrow> band \<Rightarrow> feature list \<Rightarrow> script_output" where
  "script G T dem thawPoints =
     \<lparr>console = [bandNames (arcticDEM dem)], exported = withSRI G T dem thawPoints\<rparr>"

section \<open>The thaw database\<close>






section \<open>A planar grid and example data\<close>

text \<open>
  Modelled from the spec: a raster of square cells of side \<open>s\<close> in a plane, the cell
  \<open>(i, j)\<close> covering \<open>[s i, s (i + 1)) \<times> [s j, s (j + 1))\<close>; the disk of radius \<open>r\<close>
  around a coordinate is made of the cells whose centres lie within distance \<open>r\<close> of it
  (section 4.1). The intended configuration is \<open>s = 2\<close> and \<open>r = 100\<close>.
\<close>

definition planar_grid :: "real \<Rightarrow> grid" where
  "planar_grid s =
     \<lparr>pixel_of = (\<lambda>(x, y). (\<lfloor>x / s\<rfloor>, \<lfloor>y / s\<rfloor>)),
      centre_of = (\<lambda>(i, j). (s * (of_int i + 1 / 2), s * (of_int j + 1 / 2))),
      disk_pixels = (\<lambda>(x, y) r.
        filter (\<lambda>(i, j). (s * (of_int i + 1 / 2) - x)\<^sup>2 + (s * (of_int j + 1 / 2) - y)\<^sup>2 \<le> r\<^sup>2)
          (List.product [\<lceil>(x - r) / s - 1 / 2\<rceil> .. \<lfloor>(x + r) / s - 1 / 2\<rfloor>]
                        [\<lceil>(y - r) / s - 1 / 2\<rceil> .. \<lfloor>(y + r) / s - 1 / 2\<rfloor>]))\<rparr>"

text \<open>
  Example data. A coarse grid of 100-unit cells keeps the disk of radius 100 to five
  cells; the elevation raster covers the cells \<open>(i, j)\<close> with \<open>0 \<le> i, j \<le> 1\<close>.
\<close>

definition example_grid :: grid where
  "example_grid = planar_grid 100"

definition example_dem :: band where
  "example_dem = (\<lambda>(i, j). if 0 \<le> i \<and> i \<le> 1 \<and> 0 \<le> j \<and> j \<le> 1
                           then Some (100 + 10 * of_int i + 20 * of_int j) else None)"

definition example_terrain :: terrain_algorithms where
  "example_terrain =
     \<lparr>slope_of = (\<lambda>b p. map_option (\<lambda>v. 10) (b p)),
      aspect_of = (\<lambda>b p. map_option (\<lambda>v. 180) (b p)),
      hillshade_of = (\<lambda>b p. map_option (\<lambda>v. 0) (b p))\<rparr>"

text \<open>The worked example of the specification (section 8), after the mean stage.\<close>

definition example_point :: feature where
  "example_point =
     \<lparr>geometry = Some (- 150, 64.73),
      properties = [''elevation'' \<mapsto> Num 120, ''slope'' \<mapsto> Num 10, ''aspect'' \<mapsto> Num 180,
                    ''mean_elev_100m'' \<mapsto> Num 115]\<rparr>"


text \<open>Two input records: inside the raster and outside it.\<close>

definition inside_point :: feature where
  "inside_point = \<lparr>geometry = Some (50, 50), properties = [''id'' \<mapsto> Str ''A'']\<rparr>"

definition outside_point :: feature where
  "outside_point = \<lparr>geometry = Some (950, 950), properties = [''id'' \<mapsto> Str ''B'']\<rparr>"

text \<open>
  The record \<open>inside_point\<close> after sampling and after the mean stage: the disk around
  the centre of its cell holds five cells, three of them inside the raster.
\<close>

definition example_sampled :: feature where
  "example_sampled =
     \<lparr>geometry = Some (50, 50),
      properties = [''id'' \<mapsto> Str ''A'', ''elevation'' \<mapsto> Num 100, ''slope'' \<mapsto> Num 10,
                    ''aspect'' \<mapsto> Num 180]\<rparr>"

definition example_with_mean :: feature where
  "example_with_mean =
     example_sampled\<lparr>properties := (properties example_sampled)(''mean_elev_100m'' \<mapsto> Num 110)\<rparr>"

text \<open>The worked example after the relative-elevation stage and after the index stage.\<close>

definition example_with_relative :: feature where
  "example_with_relative =
     example_point\<lparr>properties := (properties example_point)(''relative_elev'' \<mapsto> Num 5)\<rparr>"

definition example_with_sri :: feature where
  "example_with_sri =
     example_point\<lparr>properties := (properties example_point)(''solar_radiation_index'' \<mapsto>
       Num (sri_spec 10 180 64.73))\<rparr>"






section \<open>Properties of the solar radiation index\<close>

lemma withSRI_feature_Num:
  assumes "properties f ''slope'' = Some (Num s)"
    and "properties f ''aspect'' = Some (Num a)"
    and "geometry f = Some (lon, lat)"
  shows "withSRI_feature f =
           Inr (f\<lparr>properties := (properties f)(''solar_radiation_index'' \<mapsto>
                  Num (cos \<bar>lat * pi / 180 - solarDeclination\<bar> * cos (s * pi / 180)
                       + sin \<bar>lat * pi / 180 - solarDeclination\<bar> * sin (s * pi / 180)
                         * cos (a * pi / 180 - solarAzimuth)))\<rparr>)"
  using assms
  by (simp add: withSRI_feature_def Feature_get_def Feature_set_def ee_Number_def js_number_def
      Number_add_def Number_subtract_def Number_multiply_def Number_divide_def
      Number_abs_def Number_cos_def Number_sin_def coordinates_get_1_def)

lemma cos_sin_combination_bounds:
  fixes z s c :: real
  assumes "\<bar>c\<bar> \<le> 1"
  shows "- 1 \<le> cos z * cos s + sin z * sin s * c"
    and "cos z * cos s + sin z * sin s * c \<le> 1"
proof -
  have lo: "- \<bar>sin z * sin s\<bar> \<le> sin z * sin s * c"
    and hi: "sin z * sin s * c \<le> \<bar>sin z * sin s\<bar>"
  proof -
    have "\<bar>sin z * sin s * c\<bar> \<le> \<bar>sin z * sin s\<bar> * 1"
      unfolding abs_mult [of "sin z * sin s" c]
      by (rule mult_left_mono) (use assms in simp_all)
    then show "- \<bar>sin z * sin s\<bar> \<le> sin z * sin s * c"
      and "sin z * sin s * c \<le> \<bar>sin z * sin s\<bar>"
      by linarith+
  qed
  have d: "cos z * cos s + sin z * sin s = cos (z - s)"
    by (simp add: cos_diff)
  have a: "cos z * cos s - sin z * sin s = cos (z + s)"
    by (simp add: cos_add)
  have b1: "cos (z - s) \<le> 1" "- 1 \<le> cos (z - s)" "cos (z + s) \<le> 1" "- 1 \<le> cos (z + s)"
    by simp_all
  show "- 1 \<le> cos z * cos s + sin z * sin s * c"
    using lo d a b1 by (cases "0 \<le> sin z * sin s") linarith+
  show "cos z * cos s + sin z * sin s * c \<le> 1"
    using hi d a b1 by (cases "0 \<le> sin z * sin s") linarith+
qed

section \<open>Sampling and the mean stage: auxiliary facts\<close>

lemma terrainStack_bands:
  "terrainStack T dem =
     [(''elevation'', dem), (''slope'', slope_of T dem), (''aspect'', aspect_of T dem)]"
  by (simp add: terrainStack_def Image_select_def Terrain_products_def arcticDEM_def)

lemma sample_pixel_terrainStack:
  "sample_pixel (terrainStack T dem) p =
     (case dem p of
        None \<Rightarrow> None
      | Some e \<Rightarrow>
          (case slope_of T dem p of
             None \<Rightarrow> None
           | Some s \<Rightarrow>
               (case aspect_of T dem p of
                  None \<Rightarrow> None
                | Some a \<Rightarrow> Some [(''elevation'', Num e), (''slope'', Num s), (''aspect'', Num a)])))"
  by (simp add: sample_pixel_def terrainStack_bands split: option.splits)

lemma sampleRegions_skip:
  assumes "sample_feature G img f = []"
  shows "sampleRegions G img (xs @ f # ys) = sampleRegions G img (xs @ ys)"
  using assms by (simp add: sampleRegions_def)

lemma script_cong:
  assumes "sampledPoints G T dem A = sampledPoints G T dem B"
  shows "script G T dem A = script G T dem B"
  using assms
  by (simp add: script_def withSRI_def withRelativeElev_def sampledWithMean100m_def)


lemma sample_feature_no_elevation:
  "geometry f = Some c \<Longrightarrow> dem (pixel_of G c) = None \<Longrightarrow> sample_feature G (terrainStack T dem) f = []"
  by (simp add: sample_feature_def sample_pixel_terrainStack)

lemma sample_feature_cases:
  assumes "g \<in> set (sample_feature G (terrainStack T dem) f)"
  obtains p e s a where "geometry g = Some (centre_of G p)" "dem p = Some e"
    "properties g ''elevation'' = Some (Num e)" "properties g ''slope'' = Some (Num s)"
    "properties g ''aspect'' = Some (Num a)"
proof -
  from assms obtain c where c: "geometry f = Some c"
    by (cases "geometry f") (simp_all add: sample_feature_def)
  define p where "p = pixel_of G c"
  from assms c obtain vs where vs: "sample_pixel (terrainStack T dem) p = Some vs"
    by (cases "sample_pixel (terrainStack T dem) p") (simp_all add: sample_feature_def p_def)
  then obtain e s a where esa: "dem p = Some e" "slope_of T dem p = Some s"
    "aspect_of T dem p = Some a"
    "vs = [(''elevation'', Num e), (''slope'', Num s), (''aspect'', Num a)]"
    by (auto simp: sample_pixel_terrainStack split: option.splits)
  from assms c vs have "g = \<lparr>geometry = Some (centre_of G p), properties = properties f ++ map_of vs\<rparr>"
    by (simp add: sample_feature_def p_def)
  with esa have "geometry g = Some (centre_of G p)" "properties g ''elevation'' = Some (Num e)"
    "properties g ''slope'' = Some (Num s)" "properties g ''aspect'' = Some (Num a)"
    by simp_all
  with esa(1) show thesis by (blast intro: that)
qed

lemma sampledPoints_cases:
  assumes "g \<in> set (sampledPoints G T dem thawPoints)"
  obtains p e s a where "geometry g = Some (centre_of G p)" "dem p = Some e"
    "properties g ''elevation'' = Some (Num e)" "properties g ''slope'' = Some (Num s)"
    "properties g ''aspect'' = Some (Num a)"
proof -
  from assms obtain f where "g \<in> set (sample_feature G (terrainStack T dem) f)"
    by (auto simp: sampledPoints_def sampleRegions_def)
  then show thesis
    by (rule sample_feature_cases) (rule that)
qed

lemma map_features_Inr:
  assumes "\<And>x. x \<in> set xs \<Longrightarrow> \<exists>y. g x = Inr y \<and> Q y"
  shows "\<exists>ys. map_features g xs = Inr ys \<and> length ys = length xs \<and> (\<forall>y \<in> set ys. Q y)"
  using assms
proof (induction xs)
  case Nil
  then show ?case by simp
next
  case (Cons x xs)
  from Cons.prems obtain y where y: "g x = Inr y" "Q y" by auto
  from Cons obtain ys where ys: "map_features g xs = Inr ys" "length ys = length xs"
    "\<forall>y \<in> set ys. Q y" by auto
  show ?case using y ys by simp
qed

lemma valid_values_mem:
  "x \<in> set (concat (map (\<lambda>v. case v of None \<Rightarrow> [] | Some x \<Rightarrow> [x]) vs)) \<longleftrightarrow> Some x \<in> set vs"
  by (induction vs) (auto split: option.splits)

lemma valid_values_map_filter:
  "concat (map (\<lambda>v. case v of None \<Rightarrow> [] | Some x \<Rightarrow> [x]) (map b ps)) = List.map_filter b ps"
  by (induction ps) (auto simp: List.map_filter_simps split: option.splits)

lemma Reducer_mean_Num:
  assumes "Some e \<in> set vs"
  shows "\<exists>m. Reducer_mean vs = Num m"
proof -
  have "e \<in> set (concat (map (\<lambda>v. case v of None \<Rightarrow> [] | Some x \<Rightarrow> [x]) vs))"
    using assms by (simp only: valid_values_mem)
  then have "concat (map (\<lambda>v. case v of None \<Rightarrow> [] | Some x \<Rightarrow> [x]) vs) \<noteq> []"
    by (metis empty_iff list.set(1))
  then show ?thesis
    by (simp add: Reducer_mean_def Let_def)
qed

lemma sampledWithMean100m_point_eq:
  assumes "geometry point = Some c" and "length (disk_pixels G c 100) \<le> 1000000"
  shows "sampledWithMean100m_point G (arcticDEM dem) point =
           Inr (point\<lparr>properties := (properties point)(''mean_elev_100m'' \<mapsto>
                  Reducer_mean (map dem (disk_pixels G c 100)))\<rparr>)"
  using assms
  by (simp add: sampledWithMean100m_point_def Geometry_buffer_def reduceRegion_def
      Dictionary_get_def Feature_set_def arcticDEM_def Let_def)

section \<open>The planar grid: auxiliary facts\<close>

lemma planar_range_length:
  fixes x r s :: real
  assumes "0 < s"
  shows "length [\<lceil>(x - r) / s - 1 / 2\<rceil> .. \<lfloor>(x + r) / s - 1 / 2\<rfloor>] \<le> nat (\<lfloor>2 * r / s\<rfloor> + 1)"
proof -
  let ?a = "\<lceil>(x - r) / s - 1 / 2\<rceil>" and ?b = "\<lfloor>(x + r) / s - 1 / 2\<rfloor>"
  have "of_int ?b \<le> (x + r) / s - 1 / 2" by (rule of_int_floor_le)
  moreover have "(x - r) / s - 1 / 2 \<le> of_int ?a" by (rule le_of_int_ceiling)
  ultimately have "of_int ?b - of_int ?a \<le> (x + r) / s - (x - r) / s" by linarith
  also have "\<dots> = 2 * r / s" by (simp add: diff_divide_distrib add_divide_distrib)
  finally have "of_int (?b - ?a) \<le> 2 * r / s" by simp
  then have "?b - ?a \<le> \<lfloor>2 * r / s\<rfloor>" by (simp only: le_floor_iff)
  then show ?thesis by simp
qed

lemma planar_disk_length:
  assumes "0 < s"
  shows "length (disk_pixels (planar_grid s) c r) \<le> nat (\<lfloor>2 * r / s\<rfloor> + 1) * nat (\<lfloor>2 * r / s\<rfloor> + 1)"
proof -
  obtain x y where c: "c = (x, y)" by (cases c)
  let ?A = "[\<lceil>(x - r) / s - 1 / 2\<rceil> .. \<lfloor>(x + r) / s - 1 / 2\<rfloor>]"
  let ?B = "[\<lceil>(y - r) / s - 1 / 2\<rceil> .. \<lfloor>(y + r) / s - 1 / 2\<rfloor>]"
  have "length (disk_pixels (planar_grid s) c r) \<le> length (List.product ?A ?B)"
    unfolding c planar_grid_def by (simp del: length_product length_upto)
  also have "\<dots> = length ?A * length ?B" by (rule length_product)
  also have "\<dots> \<le> nat (\<lfloor>2 * r / s\<rfloor> + 1) * nat (\<lfloor>2 * r / s\<rfloor> + 1)"
    by (rule mult_le_mono) (rule planar_range_length [OF assms])+
  finally show ?thesis .
qed

lemma planar_disk_own_pixel:
  assumes "0 < s" and "0 \<le> r"
  shows "p \<in> set (disk_pixels (planar_grid s) (centre_of (planar_grid s) p) r)"
proof -
  obtain i j where p: "p = (i, j)" by (cases p)
  have q: "0 \<le> r / s" using assms by simp
  have eq: "(s * (of_int k + 1 / 2) - r) / s - 1 / 2 = of_int k - r / s"
     "(s * (of_int k + 1 / 2) + r) / s - 1 / 2 = of_int k + r / s" for k :: int
    using assms by (simp_all add: field_simps)
  have lo: "\<lceil>of_int k - r / s\<rceil> \<le> k" for k :: int
    using q by (simp add: ceiling_le_iff)
  have hi: "k \<le> \<lfloor>of_int k + r / s\<rfloor>" for k :: int
    using q by (simp add: le_floor_iff)
  show ?thesis
    unfolding p planar_grid_def using lo hi by (simp add: eq)
qed

lemma planar_2_disk_100_length:
  "length (disk_pixels (planar_grid 2) c 100) \<le> 10201"
  using planar_disk_length [of 2 c 100] by simp

lemma example_grid_cap:
  "length (disk_pixels example_grid c 100) \<le> 1000000"
  using planar_disk_length [of 100 c 100] by (simp add: example_grid_def)

lemma example_grid_own_pixel:
  "p \<in> set (disk_pixels example_grid (centre_of example_grid p) 100)"
  unfolding example_grid_def by (rule planar_disk_own_pixel) simp_all

section \<open>Claims about the solar radiation index\<close>

text \<open>
  Claim C1. For a point that carries a slope, an aspect and a latitude, the stage sets
  \<^verbatim>\<open>solar_radiation_index\<close> to the index of section 4.5: the cosine law with the
  degree inputs converted to radians, the zenith \<open>\<bar>latRad - solarDeclination\<bar>\<close>, and the
  constants 23.44 and 136.52 degrees, which do not depend on the point.
\<close>

theorem withSRI_feature_sri_spec:
  assumes "properties f ''slope'' = Some (Num slopeDeg)"
    and "properties f ''aspect'' = Some (Num aspectDeg)"
    and "geometry f = Some (lon, lat)"
  shows "withSRI_feature f =
           Inr (f\<lparr>properties := (properties f)(''solar_radiation_index'' \<mapsto>
                  Num (sri_spec slopeDeg aspectDeg lat))\<rparr>)"
  unfolding withSRI_feature_Num [OF assms]
  by (simp add: sri_spec_def radians_def solarDeclination_def solarAzimuth_def Let_def)

theorem withSRI_feature_sri_spec_witness:
  "withSRI_feature example_point =
     Inr (example_point\<lparr>properties := (properties example_point)(''solar_radiation_index'' \<mapsto>
            Num (sri_spec 10 180 64.73))\<rparr>)"
  using withSRI_feature_sri_spec [of example_point 10 180 "- 150" "64.73"]
  by (simp add: example_point_def)

section \<open>The index over the reals\<close>

text \<open>
  Over the reals the formula of section 4.5 stays between \<open>-1\<close> and \<open>1\<close> and is
  symmetric in the latitude about the declination. The platform evaluates the formula
  in double precision, where each operation rounds; the two facts below are about the
  exact formula only and say nothing about the rounded value.
\<close>

lemma sri_spec_bounded:
  "- 1 \<le> sri_spec slopeDeg aspectDeg latitudeDeg \<and> sri_spec slopeDeg aspectDeg latitudeDeg \<le> 1"
  using cos_sin_combination_bounds [of "cos (radians aspectDeg - radians 23.44)" z s for z s]
  unfolding sri_spec_def Let_def
  by (intro conjI cos_sin_combination_bounds) simp_all

lemma sri_spec_symmetric:
  "sri_spec slopeDeg aspectDeg (23.44 + x) = sri_spec slopeDeg aspectDeg (23.44 - x)"
proof -
  have h: "\<bar>radians (23.44 + x) - radians 23.44\<bar> = \<bar>radians (23.44 - x) - radians 23.44\<bar>"
    by (simp add: radians_def algebra_simps diff_divide_distrib add_divide_distrib)
  show ?thesis
    by (simp only: sri_spec_def Let_def h)
qed

section \<open>Properties of the relative elevation\<close>

text \<open>
  Claim C2. For a point whose \<^verbatim>\<open>elevation\<close> and \<^verbatim>\<open>mean_elev_100m\<close> are both defined,
  the stage sets \<^verbatim>\<open>relative_elev\<close> to the elevation minus the mean elevation of the
  disk.
\<close>

theorem withRelativeElev_feature_difference:
  assumes "properties f ''elevation'' = Some (Num elevation)"
    and "properties f ''mean_elev_100m'' = Some (Num meanElev)"
  shows "withRelativeElev_feature f =
           Inr (f\<lparr>properties := (properties f)(''relative_elev'' \<mapsto> Num (elevation - meanElev))\<rparr>)"
  using assms
  by (simp add: withRelativeElev_feature_def Feature_get_def Feature_set_def ee_Number_def
      Number_subtract_def)

theorem withRelativeElev_feature_difference_witness:
  "withRelativeElev_feature example_point =
     Inr (example_point\<lparr>properties := (properties example_point)(''relative_elev'' \<mapsto> Num 5)\<rparr>)"
  using withRelativeElev_feature_difference [of example_point 120 115]
  by (simp add: example_point_def)

section \<open>The script on sampled points: auxiliary facts\<close>

lemma upto_m1_1: "[- 1 .. 1] = [- 1, 0, 1 :: int]"
  by (simp add: upto.simps)

lemma upto_8_10: "[8 .. 10] = [8, 9, 10 :: int]"
  by (simp add: upto.simps)

lemma example_disk_inside:
  "disk_pixels example_grid (50, 50) 100 = [(- 1, 0), (0, - 1), (0, 0), (0, 1), (1, 0)]"
  by (simp add: example_grid_def planar_grid_def ceiling_minus upto_m1_1)

lemma example_disk_outside:
  "disk_pixels example_grid (950, 950) 100 = [(8, 9), (9, 8), (9, 9), (9, 10), (10, 9)]"
  by (simp add: example_grid_def planar_grid_def upto_8_10)

lemma Feature_set_Inr:
  assumes "Feature_set f k c = Inr g"
  shows "\<exists>v. g = f\<lparr>properties := (properties f)(k \<mapsto> v)\<rparr>"
  using assms by (cases c) (auto simp: Feature_set_def)

lemma Feature_set_frame:
  assumes "Feature_set f k c = Inr g"
  shows "geometry g = geometry f \<and> k \<in> dom (properties g)
           \<and> (\<forall>k'. k' \<noteq> k \<longrightarrow> properties g k' = properties f k')"
  using Feature_set_Inr [OF assms] by auto

lemma example_mean_stage:
  "sampledWithMean100m_point example_grid (arcticDEM example_dem) example_sampled = Inr example_with_mean"
proof -
  have g: "geometry example_sampled = Some (50, 50)" by (simp add: example_sampled_def)
  have "Reducer_mean (map example_dem (disk_pixels example_grid (50, 50) 100)) = Num 110"
    by (simp add: example_disk_inside example_dem_def Reducer_mean_def)
  then show ?thesis
    using sampledWithMean100m_point_eq [OF g example_grid_cap, of example_dem]
    by (simp add: example_with_mean_def)
qed

lemma planar_disk_own_coord:
  assumes "0 < s" and "s \<le> r"
  shows "pixel_of (planar_grid s) c \<in> set (disk_pixels (planar_grid s) c r)"
proof -
  obtain x y where c: "c = (x, y)" by (cases c)
  have half: "1 / 2 \<le> r / s" using assms by (simp add: field_simps)
  have one: "\<lceil>(t - r) / s - 1 / 2\<rceil> \<le> \<lfloor>t / s\<rfloor> \<and> \<lfloor>t / s\<rfloor> \<le> \<lfloor>(t + r) / s - 1 / 2\<rfloor>
      \<and> (s * (of_int \<lfloor>t / s\<rfloor> + 1 / 2) - t)\<^sup>2 \<le> s\<^sup>2 / 4" for t :: real
  proof -
    let ?i = "\<lfloor>t / s\<rfloor>"
    have lo: "of_int ?i \<le> t / s" by (rule of_int_floor_le)
    have hi: "t / s < of_int ?i + 1" by linarith
    have e1: "(t - r) / s = t / s - r / s" by (simp add: diff_divide_distrib)
    have e2: "(t + r) / s = t / s + r / s" by (simp add: add_divide_distrib)
    have a: "\<lceil>(t - r) / s - 1 / 2\<rceil> \<le> ?i"
      unfolding ceiling_le_iff e1 using hi half by linarith
    have b: "?i \<le> \<lfloor>(t + r) / s - 1 / 2\<rfloor>"
      unfolding le_floor_iff e2 using lo half by linarith
    have t: "t = s * (t / s)" using assms by simp
    define d where "d = of_int ?i + 1 / 2 - t / s"
    have d: "\<bar>d\<bar> \<le> 1 / 2" unfolding d_def using lo hi by linarith
    have "s * (of_int ?i + 1 / 2) - t = s * d"
      unfolding d_def using assms by (simp add: algebra_simps)
    moreover have "(s * d)\<^sup>2 \<le> s\<^sup>2 / 4"
    proof -
      have "d\<^sup>2 \<le> (1 / 2)\<^sup>2" using d by (metis abs_le_square_iff abs_numeral abs_divide abs_one)
      then have "s\<^sup>2 * d\<^sup>2 \<le> s\<^sup>2 * (1 / 2)\<^sup>2" by (rule mult_left_mono) simp
      then show ?thesis by (simp add: power_mult_distrib power2_eq_square algebra_simps)
    qed
    ultimately show ?thesis using a b by simp
  qed
  have sr: "s\<^sup>2 \<le> r\<^sup>2" using assms by (simp add: power_mono)
  have px: "(s * (of_int \<lfloor>x / s\<rfloor> + 1 / 2) - x)\<^sup>2 \<le> s\<^sup>2 / 4"
    using one [of x] by blast
  have py: "(s * (of_int \<lfloor>y / s\<rfloor> + 1 / 2) - y)\<^sup>2 \<le> s\<^sup>2 / 4"
    using one [of y] by blast
  have s0: "0 \<le> s\<^sup>2" by simp
  have "(s * (of_int \<lfloor>x / s\<rfloor> + 1 / 2) - x)\<^sup>2 + (s * (of_int \<lfloor>y / s\<rfloor> + 1 / 2) - y)\<^sup>2 \<le> r\<^sup>2"
    using px py sr s0 by linarith
  then show ?thesis
    unfolding c planar_grid_def using one [of x] one [of y] by simp
qed

lemma example_grid_own_coord:
  "pixel_of example_grid c \<in> set (disk_pixels example_grid c 100)"
  unfolding example_grid_def by (rule planar_disk_own_coord) simp_all


lemma map_filter_mem:
  "y \<in> set (List.map_filter f xs) \<longleftrightarrow> (\<exists>x \<in> set xs. f x = Some y)"
  by (induction xs) (auto simp: List.map_filter_simps split: option.splits)

lemma map_filter_nonempty:
  assumes "p \<in> set ps" and "f p = Some e"
  shows "List.map_filter f ps \<noteq> []"
proof -
  have "e \<in> set (List.map_filter f ps)" using assms by (auto simp: map_filter_mem)
  then show ?thesis by auto
qed

lemma Reducer_mean_map:
  "Reducer_mean (map dem ps) =
     (if List.map_filter dem ps = [] then Null
      else Num (sum_list (List.map_filter dem ps) / real (length (List.map_filter dem ps))))"
  by (simp only: Reducer_mean_def valid_values_map_filter Let_def)

lemma script_records:
  assumes own: "\<And>p. p \<in> set (disk_pixels G (centre_of G p) 100)"
    and cap: "\<And>c. length (disk_pixels G c 100) \<le> 1000000"
  shows "\<exists>table. exported (script G T dem thawPoints) = Inr table
           \<and> length table = length (sampledPoints G T dem thawPoints)
           \<and> (\<forall>r \<in> set table. \<exists>c e.
                  geometry r = Some c
                \<and> List.map_filter dem (disk_pixels G c 100) \<noteq> []
                \<and> properties r ''elevation'' = Some (Num e)
                \<and> properties r ''mean_elev_100m''
                    = Some (Num (sum_list (List.map_filter dem (disk_pixels G c 100))
                                 / real (length (List.map_filter dem (disk_pixels G c 100)))))
                \<and> properties r ''relative_elev''
                    = Some (Num (e - sum_list (List.map_filter dem (disk_pixels G c 100))
                                     / real (length (List.map_filter dem (disk_pixels G c 100))))))"
proof -
  define mean_of where
    "mean_of = (\<lambda>c. sum_list (List.map_filter dem (disk_pixels G c 100))
                     / real (length (List.map_filter dem (disk_pixels G c 100))))"
  define Q1 where "Q1 = (\<lambda>r :: feature. \<exists>c e s a.
      geometry r = Some c \<and> List.map_filter dem (disk_pixels G c 100) \<noteq> []
    \<and> properties r ''elevation'' = Some (Num e) \<and> properties r ''slope'' = Some (Num s)
    \<and> properties r ''aspect'' = Some (Num a)
    \<and> properties r ''mean_elev_100m'' = Some (Num (mean_of c)))"
  define Q2 where "Q2 = (\<lambda>r :: feature. \<exists>c e s a.
      geometry r = Some c \<and> List.map_filter dem (disk_pixels G c 100) \<noteq> []
    \<and> properties r ''elevation'' = Some (Num e) \<and> properties r ''slope'' = Some (Num s)
    \<and> properties r ''aspect'' = Some (Num a)
    \<and> properties r ''mean_elev_100m'' = Some (Num (mean_of c))
    \<and> properties r ''relative_elev'' = Some (Num (e - mean_of c)))"
  define Q3 where "Q3 = (\<lambda>r :: feature. \<exists>c e.
      geometry r = Some c \<and> List.map_filter dem (disk_pixels G c 100) \<noteq> []
    \<and> properties r ''elevation'' = Some (Num e)
    \<and> properties r ''mean_elev_100m'' = Some (Num (mean_of c))
    \<and> properties r ''relative_elev'' = Some (Num (e - mean_of c)))"
  let ?S = "sampledPoints G T dem thawPoints"
  have s1: "\<exists>y. sampledWithMean100m_point G (arcticDEM dem) x = Inr y \<and> Q1 y" if "x \<in> set ?S" for x
  proof -
    from that obtain p e s a where x: "geometry x = Some (centre_of G p)" "dem p = Some e"
      "properties x ''elevation'' = Some (Num e)" "properties x ''slope'' = Some (Num s)"
      "properties x ''aspect'' = Some (Num a)"
      by (rule sampledPoints_cases)
    have ne: "List.map_filter dem (disk_pixels G (centre_of G p) 100) \<noteq> []"
      using own [of p] x(2) by (rule map_filter_nonempty)
    then have m: "Reducer_mean (map dem (disk_pixels G (centre_of G p) 100)) = Num (mean_of (centre_of G p))"
      unfolding Reducer_mean_map mean_of_def by simp
    have "Q1 (x\<lparr>properties := (properties x)(''mean_elev_100m'' \<mapsto> Num (mean_of (centre_of G p)))\<rparr>)"
      unfolding Q1_def by (rule exI [of _ "centre_of G p"]) (use x ne in simp)
    then show ?thesis
      unfolding sampledWithMean100m_point_eq [OF x(1) cap] m by simp
  qed
  have s2: "\<exists>z. withRelativeElev_feature y = Inr z \<and> Q2 z" if "Q1 y" for y
  proof -
    from that obtain c e s a where y: "geometry y = Some c"
      "List.map_filter dem (disk_pixels G c 100) \<noteq> []"
      "properties y ''elevation'' = Some (Num e)"
      "properties y ''slope'' = Some (Num s)" "properties y ''aspect'' = Some (Num a)"
      "properties y ''mean_elev_100m'' = Some (Num (mean_of c))"
      unfolding Q1_def by blast
    have "withRelativeElev_feature y =
            Inr (y\<lparr>properties := (properties y)(''relative_elev'' \<mapsto> Num (e - mean_of c))\<rparr>)"
      using y by (simp add: withRelativeElev_feature_def Feature_get_def Feature_set_def
          ee_Number_def Number_subtract_def)
    moreover have "Q2 (y\<lparr>properties := (properties y)(''relative_elev'' \<mapsto> Num (e - mean_of c))\<rparr>)"
      unfolding Q2_def by (rule exI [of _ c]) (use y in simp)
    ultimately show ?thesis by simp
  qed
  have s3: "\<exists>w. withSRI_feature z = Inr w \<and> Q3 w" if "Q2 z" for z
  proof -
    from that obtain c e s a where z: "geometry z = Some c"
      "List.map_filter dem (disk_pixels G c 100) \<noteq> []"
      "properties z ''elevation'' = Some (Num e)"
      "properties z ''slope'' = Some (Num s)" "properties z ''aspect'' = Some (Num a)"
      "properties z ''mean_elev_100m'' = Some (Num (mean_of c))"
      "properties z ''relative_elev'' = Some (Num (e - mean_of c))"
      unfolding Q2_def by blast
    obtain lon lat where ll: "c = (lon, lat)" by (cases c)
    have g: "geometry z = Some (lon, lat)" using z(1) ll by simp
    have "Q3 w" if "w = z\<lparr>properties := (properties z)(''solar_radiation_index'' \<mapsto> Num v)\<rparr>"
      for w v
      unfolding Q3_def by (rule exI [of _ c]) (use z that in simp)
    then show ?thesis
      unfolding withSRI_feature_Num [OF z(4) z(5) g] by simp
  qed
  from map_features_Inr [of ?S "sampledWithMean100m_point G (arcticDEM dem)" Q1] s1
  obtain ys where ys: "map_features (sampledWithMean100m_point G (arcticDEM dem)) ?S = Inr ys"
    "length ys = length ?S" "\<forall>y \<in> set ys. Q1 y" by blast
  from map_features_Inr [of ys withRelativeElev_feature Q2] s2 ys(3)
  obtain zs where zs: "map_features withRelativeElev_feature ys = Inr zs"
    "length zs = length ys" "\<forall>z \<in> set zs. Q2 z" by blast
  from map_features_Inr [of zs withSRI_feature Q3] s3 zs(3)
  obtain ws where ws: "map_features withSRI_feature zs = Inr ws"
    "length ws = length zs" "\<forall>w \<in> set ws. Q3 w" by blast
  have "exported (script G T dem thawPoints) = Inr ws"
    using ys(1) zs(1) ws(1)
    by (simp add: script_def withSRI_def withRelativeElev_def sampledWithMean100m_def
        FeatureCollection_map_def)
  moreover have "length ws = length ?S" using ys(2) zs(2) ws(2) by simp
  ultimately show ?thesis
    using ws(3) unfolding Q3_def mean_of_def by blast
qed

lemma ex_drop_middle: "\<exists>t. A t \<and> L t \<and> R t \<Longrightarrow> \<exists>t. A t \<and> R t"
  by blast

lemma ex_drop_right: "\<exists>t. A t \<and> R t \<Longrightarrow> \<exists>t. A t"
  by blast

lemma script_skip:
  assumes "sample_feature G (terrainStack T dem) f = []"
  shows "script G T dem (xs @ f # ys) = script G T dem (xs @ ys)"
proof -
  have "sampledPoints G T dem (xs @ f # ys) = sampledPoints G T dem (xs @ ys)"
    unfolding sampledPoints_def using assms by (rule sampleRegions_skip)
  then show ?thesis by (rule script_cong)
qed


lemmas example_defs = example_grid_def planar_grid_def example_dem_def example_terrain_def
  inside_point_def outside_point_def

section \<open>Claims about the stages and the script\<close>

text \<open>
  Claim C8. Each stage only adds its own field. Whenever the mean stage, the
  relative-elevation stage or the index stage returns a record, that record has the
  geometry of the input, carries the stage's field (\<^verbatim>\<open>mean_elev_100m\<close>,
  \<^verbatim>\<open>relative_elev\<close>, \<^verbatim>\<open>solar_radiation_index\<close>), and agrees with the input on every
  other field.
\<close>

theorem stages_add_only_their_field:
  "(sampledWithMean100m_point G img f1 = Inr g1 \<longrightarrow>
      geometry g1 = geometry f1 \<and> ''mean_elev_100m'' \<in> dom (properties g1)
      \<and> (\<forall>k. k \<noteq> ''mean_elev_100m'' \<longrightarrow> properties g1 k = properties f1 k))
   \<and> (withRelativeElev_feature f2 = Inr g2 \<longrightarrow>
      geometry g2 = geometry f2 \<and> ''relative_elev'' \<in> dom (properties g2)
      \<and> (\<forall>k. k \<noteq> ''relative_elev'' \<longrightarrow> properties g2 k = properties f2 k))
   \<and> (withSRI_feature f3 = Inr g3 \<longrightarrow>
      geometry g3 = geometry f3 \<and> ''solar_radiation_index'' \<in> dom (properties g3)
      \<and> (\<forall>k. k \<noteq> ''solar_radiation_index'' \<longrightarrow> properties g3 k = properties f3 k))"
proof (intro conjI impI)
  assume "sampledWithMean100m_point G img f1 = Inr g1"
  then have 1: "geometry g1 = geometry f1 \<and> ''mean_elev_100m'' \<in> dom (properties g1)
      \<and> (\<forall>k. k \<noteq> ''mean_elev_100m'' \<longrightarrow> properties g1 k = properties f1 k)"
    unfolding sampledWithMean100m_point_def Let_def by (rule Feature_set_frame)
  from 1 show "geometry g1 = geometry f1" by simp
  from 1 show "''mean_elev_100m'' \<in> dom (properties g1)" by simp
  from 1 show "\<forall>k. k \<noteq> ''mean_elev_100m'' \<longrightarrow> properties g1 k = properties f1 k" by simp
next
  assume "withRelativeElev_feature f2 = Inr g2"
  then have 2: "geometry g2 = geometry f2 \<and> ''relative_elev'' \<in> dom (properties g2)
      \<and> (\<forall>k. k \<noteq> ''relative_elev'' \<longrightarrow> properties g2 k = properties f2 k)"
    unfolding withRelativeElev_feature_def Let_def by (rule Feature_set_frame)
  from 2 show "geometry g2 = geometry f2" by simp
  from 2 show "''relative_elev'' \<in> dom (properties g2)" by simp
  from 2 show "\<forall>k. k \<noteq> ''relative_elev'' \<longrightarrow> properties g2 k = properties f2 k" by simp
next
  assume "withSRI_feature f3 = Inr g3"
  then have 3: "geometry g3 = geometry f3 \<and> ''solar_radiation_index'' \<in> dom (properties g3)
      \<and> (\<forall>k. k \<noteq> ''solar_radiation_index'' \<longrightarrow> properties g3 k = properties f3 k)"
    unfolding withSRI_feature_def Let_def by (rule Feature_set_frame)
  from 3 show "geometry g3 = geometry f3" by simp
  from 3 show "''solar_radiation_index'' \<in> dom (properties g3)" by simp
  from 3 show "\<forall>k. k \<noteq> ''solar_radiation_index'' \<longrightarrow> properties g3 k = properties f3 k" by simp
qed

theorem stages_add_only_their_field_witness:
  "sampledWithMean100m_point example_grid (arcticDEM example_dem) example_sampled = Inr example_with_mean
   \<and> withRelativeElev_feature example_point = Inr example_with_relative
   \<and> withSRI_feature example_point = Inr example_with_sri
   \<and> geometry example_with_mean = geometry example_sampled
   \<and> properties example_with_mean ''elevation'' = properties example_sampled ''elevation''
   \<and> properties example_with_mean ''id'' = properties example_sampled ''id''
   \<and> geometry example_with_relative = geometry example_point
   \<and> properties example_with_relative ''elevation'' = properties example_point ''elevation''
   \<and> properties example_with_relative ''mean_elev_100m'' = properties example_point ''mean_elev_100m''
   \<and> geometry example_with_sri = geometry example_point
   \<and> properties example_with_sri ''slope'' = properties example_point ''slope''
   \<and> properties example_with_sri ''aspect'' = properties example_point ''aspect''"
proof -
  have 1: "sampledWithMean100m_point example_grid (arcticDEM example_dem) example_sampled = Inr example_with_mean"
    by (rule example_mean_stage)
  have 2: "withRelativeElev_feature example_point = Inr example_with_relative"
    by (simp add: withRelativeElev_feature_def Feature_get_def Feature_set_def ee_Number_def
        Number_subtract_def example_point_def example_with_relative_def)
  have 3: "withSRI_feature example_point = Inr example_with_sri"
    using withSRI_feature_Num [of example_point 10 180 "- 150" "64.73"]
    by (simp add: example_point_def example_with_sri_def sri_spec_def radians_def
        solarDeclination_def solarAzimuth_def Let_def)
  show ?thesis
    using 1 2 3
      stages_add_only_their_field [of example_grid "arcticDEM example_dem" example_sampled
        example_with_mean example_point example_with_relative example_point example_with_sri]
    by simp
qed

text \<open>
  Claim C9. On a raster of 2-unit cells a disk of radius 100 holds at most
  \<open>101 \<times> 101 = 10201\<close> cells, so the cap of \<open>10\<^sup>6\<close> cells is never reached: the capped
  reduction returns the reduced value of every band over the whole disk, and the mean
  stage sets the mean over the whole disk.
\<close>

theorem reduceRegion_cap_not_reached:
  "length (disk_pixels (planar_grid 2) c 100) \<le> 10201
   \<and> reduceRegion (planar_grid 2) img Reducer_mean (Inr (c, 100)) 1000000 =
       Inr (map_of (map (\<lambda>nb. (fst nb, Reducer_mean (map (snd nb) (disk_pixels (planar_grid 2) c 100)))) img))
   \<and> sampledWithMean100m_point (planar_grid 2) (arcticDEM dem) \<lparr>geometry = Some c, properties = props\<rparr> =
       Inr \<lparr>geometry = Some c,
            properties = props(''mean_elev_100m'' \<mapsto>
              Reducer_mean (map dem (disk_pixels (planar_grid 2) c 100)))\<rparr>"
proof -
  have len: "length (disk_pixels (planar_grid 2) c 100) \<le> 10201"
    by (rule planar_2_disk_100_length)
  then have cap: "length (disk_pixels (planar_grid 2) c 100) \<le> 1000000"
    by simp
  have "reduceRegion (planar_grid 2) img Reducer_mean (Inr (c, 100)) 1000000 =
       Inr (map_of (map (\<lambda>nb. (fst nb, Reducer_mean (map (snd nb) (disk_pixels (planar_grid 2) c 100)))) img))"
    using cap by (simp add: reduceRegion_def Let_def)
  moreover have "sampledWithMean100m_point (planar_grid 2) (arcticDEM dem) \<lparr>geometry = Some c, properties = props\<rparr> =
       Inr \<lparr>geometry = Some c,
            properties = props(''mean_elev_100m'' \<mapsto>
              Reducer_mean (map dem (disk_pixels (planar_grid 2) c 100)))\<rparr>"
    using sampledWithMean100m_point_eq [of "\<lparr>geometry = Some c, properties = props\<rparr>" c "planar_grid 2" dem] cap
    by simp
  ultimately show ?thesis using len by blast
qed

text \<open>
  Claim C3 as stated fails. A run on the single record \<open>outside_point\<close>, whose
  coordinate lies outside the raster, prints the band names and exports an empty table:
  there is no record for the point and no report of its exclusion.
\<close>

theorem outside_point_counterexample:
  "script example_grid example_terrain example_dem [outside_point]
     = \<lparr>console = [[''elevation'']], exported = Inr []\<rparr>"
  by (simp add: script_def withSRI_def withRelativeElev_def sampledWithMean100m_def
      FeatureCollection_map_def sampledPoints_def sampleRegions_def sample_feature_def
      sample_pixel_terrainStack bandNames_def arcticDEM_def example_defs)

text \<open>
  Claim C3, amended. An input point whose coordinate lies outside the raster extent (no
  elevation cell at its pixel) gets no record in the output table and nothing reports
  it: what the run prints and exports is what the run without the point prints and
  exports.
\<close>

theorem outside_point_left_out:
  assumes "geometry f = Some c"
    and "dem (pixel_of G c) = None"
  shows "script G T dem (xs @ f # ys) = script G T dem (xs @ ys)"
proof -
  have "sample_feature G (terrainStack T dem) f = []"
    using assms by (rule sample_feature_no_elevation)
  then have "sampledPoints G T dem (xs @ f # ys) = sampledPoints G T dem (xs @ ys)"
    unfolding sampledPoints_def by (rule sampleRegions_skip)
  then show ?thesis by (rule script_cong)
qed

theorem outside_point_left_out_witness:
  "script example_grid example_terrain example_dem ([inside_point] @ outside_point # [])
     = script example_grid example_terrain example_dem ([inside_point] @ [])"
  using outside_point_left_out [where f = outside_point and c = "(950, 950)"
      and dem = example_dem and G = example_grid and T = example_terrain
      and xs = "[inside_point]" and ys = "[]"]
  by (simp add: example_defs)




text \<open>
  Claim C6 as stated fails in its last part. No cell of the disk around
  \<open>outside_point\<close> holds a value, and the run exports no record for the point: the
  table is that of the run without it, so nothing marks \<^verbatim>\<open>mean_elev_100m\<close> or
  \<^verbatim>\<open>relative_elev\<close> as missing.
\<close>

theorem zero_coverage_counterexample:
  "map example_dem (disk_pixels example_grid (950, 950) 100) = [None, None, None, None, None]
   \<and> exported (script example_grid example_terrain example_dem [inside_point, outside_point])
       = exported (script example_grid example_terrain example_dem [inside_point])
   \<and> sampledPoints example_grid example_terrain example_dem [outside_point] = []"
proof -
  have m: "map example_dem (disk_pixels example_grid (950, 950) 100) = [None, None, None, None, None]"
    by (simp add: example_disk_outside example_dem_def)
  have sf: "sample_feature example_grid (terrainStack example_terrain example_dem) outside_point = []"
    by (rule sample_feature_no_elevation [where c = "(950, 950)"])
      (simp_all add: outside_point_def example_grid_def planar_grid_def example_dem_def)
  have e: "exported (script example_grid example_terrain example_dem [inside_point, outside_point])
       = exported (script example_grid example_terrain example_dem [inside_point])"
    using script_skip [OF sf, of "[inside_point]" "[]"] by simp
  have s: "sampledPoints example_grid example_terrain example_dem [outside_point] = []"
    using sf by (simp add: sampledPoints_def sampleRegions_def)
  from m e s show ?thesis by (intro conjI)
qed

text \<open>
  Claim C6, amended. On a grid where the disk around a coordinate holds the cell of that
  coordinate and stays within the cap, the run completes, and for every record of the
  exported table the disk holds a cell with a value, \<^verbatim>\<open>mean_elev_100m\<close> is the
  arithmetic mean over the cells of the disk that hold one, and \<^verbatim>\<open>relative_elev\<close> is
  the elevation minus that mean. A point whose disk holds no cell with a value is left
  out at sampling: what the run prints and exports is what the run without the point
  prints and exports, so neither field is computed or defaulted for it.
\<close>

theorem mean_over_valid_cells:
  assumes centre: "\<And>p. p \<in> set (disk_pixels G (centre_of G p) 100)"
    and own: "\<And>c. pixel_of G c \<in> set (disk_pixels G c 100)"
    and cap: "\<And>c. length (disk_pixels G c 100) \<le> 1000000"
  shows "(\<exists>table. exported (script G T dem thawPoints) = Inr table
            \<and> (\<forall>r \<in> set table. \<exists>c e.
                   geometry r = Some c
                 \<and> List.map_filter dem (disk_pixels G c 100) \<noteq> []
                 \<and> properties r ''elevation'' = Some (Num e)
                 \<and> properties r ''mean_elev_100m''
                     = Some (Num (sum_list (List.map_filter dem (disk_pixels G c 100))
                                  / real (length (List.map_filter dem (disk_pixels G c 100)))))
                 \<and> properties r ''relative_elev''
                     = Some (Num (e - sum_list (List.map_filter dem (disk_pixels G c 100))
                                      / real (length (List.map_filter dem (disk_pixels G c 100)))))))
         \<and> (geometry f = Some c \<and> List.map_filter dem (disk_pixels G c 100) = [] \<longrightarrow>
              script G T dem (xs @ f # ys) = script G T dem (xs @ ys))"
proof (intro conjI impI)
  show "\<exists>table. exported (script G T dem thawPoints) = Inr table
            \<and> (\<forall>r \<in> set table. \<exists>c e.
                   geometry r = Some c
                 \<and> List.map_filter dem (disk_pixels G c 100) \<noteq> []
                 \<and> properties r ''elevation'' = Some (Num e)
                 \<and> properties r ''mean_elev_100m''
                     = Some (Num (sum_list (List.map_filter dem (disk_pixels G c 100))
                                  / real (length (List.map_filter dem (disk_pixels G c 100)))))
                 \<and> properties r ''relative_elev''
                     = Some (Num (e - sum_list (List.map_filter dem (disk_pixels G c 100))
                                      / real (length (List.map_filter dem (disk_pixels G c 100))))))"
    by (rule ex_drop_middle) (rule script_records [OF centre cap])
next
  assume a: "geometry f = Some c \<and> List.map_filter dem (disk_pixels G c 100) = []"
  have "dem (pixel_of G c) = None"
  proof (cases "dem (pixel_of G c)")
    case None
    then show ?thesis .
  next
    case (Some e)
    with own [of c] have "List.map_filter dem (disk_pixels G c 100) \<noteq> []"
      by (rule map_filter_nonempty)
    with a show ?thesis by simp
  qed
  with a have "sample_feature G (terrainStack T dem) f = []"
    by (simp add: sample_feature_no_elevation)
  then show "script G T dem (xs @ f # ys) = script G T dem (xs @ ys)"
    by (rule script_skip)
qed

theorem mean_over_valid_cells_witness:
  "(\<exists>table. exported (script example_grid example_terrain example_dem [inside_point]) = Inr table)
   \<and> script example_grid example_terrain example_dem ([inside_point] @ outside_point # [])
       = script example_grid example_terrain example_dem ([inside_point] @ [])"
proof -
  have h: "geometry outside_point = Some (950, 950)
      \<and> List.map_filter example_dem (disk_pixels example_grid (950, 950) 100) = []"
    by (simp add: outside_point_def example_disk_outside example_dem_def List.map_filter_simps)
  note th = mean_over_valid_cells [where G = example_grid and T = example_terrain
      and dem = example_dem and thawPoints = "[inside_point]" and f = outside_point
      and c = "(950, 950)" and xs = "[inside_point]" and ys = "[]",
      OF example_grid_own_pixel example_grid_own_coord example_grid_cap]
  have a: "\<exists>table. exported (script example_grid example_terrain example_dem [inside_point]) = Inr table"
    by (rule ex_drop_right) (rule th [THEN conjunct1])
  have b: "script example_grid example_terrain example_dem ([inside_point] @ outside_point # [])
       = script example_grid example_terrain example_dem ([inside_point] @ [])"
    by (rule th [THEN conjunct2, THEN mp]) (rule h)
  from a b show ?thesis by (rule conjI)
qed




end
